theory Spec2Isabelle
  imports Complex_Main
begin

section \<open>Python values, exceptions and printed output\<close>

text \<open>
  The module \<open>binance_api.py\<close> is glue around three libraries: the exchange client
  (ccxt), the HTTP transport (requests) and the table library (pandas).  The values that
  travel through it are JSON-like Python values.  A Python \<open>str\<close> is kept as its UTF-8
  byte sequence; the operations the module applies to strings (emptiness, equality with
  an ASCII literal, removing \<open>/\<close>, testing and cutting the ASCII suffix \<open>USDT\<close>) give
  the same answer on bytes as on code points.  Numbers are finite; the distinction
  between \<open>int\<close> and \<open>float\<close> plays no part in the module.
\<close>

datatype pyval =
    PNone
  | PBool bool
  | PNum real
  | PStr string
  | PList "pyval list"
  | PDict "(string \<times> pyval) list"

text \<open>Truth value testing, as \<open>if x:\<close> and \<open>not x\<close> perform it.\<close>

fun truthy :: "pyval \<Rightarrow> bool" where
  "truthy PNone = False"
| "truthy (PBool b) = b"
| "truthy (PNum r) = (r \<noteq> 0)"
| "truthy (PStr s) = (s \<noteq> [])"
| "truthy (PList xs) = (xs \<noteq> [])"
| "truthy (PDict kvs) = (kvs \<noteq> [])"

text \<open>
  Exceptions.  Every exception here is an instance of \<open>Exception\<close>; the class tag records
  which of the two classes the module names in an \<open>except\<close> clause it belongs to, or
  which interpreter error it is.  The string is \<open>str(e)\<close>.
\<close>

datatype exn_class =
    AuthenticationError
  | RequestException
  | KeyError
  | TypeError
  | AttributeError
  | ValueError
  | IndexError
  | OtherException

datatype exn = Exn exn_class string

fun exn_class_of :: "exn \<Rightarrow> exn_class" where
  "exn_class_of (Exn c m) = c"

fun str_exn :: "exn \<Rightarrow> string" where
  "str_exn (Exn c m) = m"

text \<open>
  A printed line is either plain text or a prefix followed by the rendering of a value
  (\<open>print(f"...: {order}")\<close>).  Printing itself is taken not to fail.
\<close>

datatype line = Line string | LineVal string pyval

text \<open>The non-ASCII letters of the module's Turkish messages, in UTF-8.\<close>

definition u_i :: string where "u_i = [CHR 0xC4, CHR 0xB1]"
definition u_s :: string where "u_s = [CHR 0xC5, CHR 0x9F]"
definition u_g :: string where "u_g = [CHR 0xC4, CHR 0x9F]"
definition u_c :: string where "u_c = [CHR 0xC3, CHR 0xA7]"

subsection \<open>Interpreter operations on values\<close>

text \<open>\<open>d[k]\<close> with a string key.\<close>

fun py_getitem :: "pyval \<Rightarrow> string \<Rightarrow> exn + pyval" where
  "py_getitem (PDict kvs) k =
     (case map_of kvs k of
        Some v \<Rightarrow> Inr v
      | None \<Rightarrow> Inl (Exn KeyError k))"
| "py_getitem v k = Inl (Exn TypeError ''bad subscript'')"

text \<open>\<open>d.get(k, default)\<close>; only a dict has the method.\<close>

fun py_get :: "pyval \<Rightarrow> string \<Rightarrow> pyval \<Rightarrow> exn + pyval" where
  "py_get (PDict kvs) k d =
     (case map_of kvs k of
        Some v \<Rightarrow> Inr v
      | None \<Rightarrow> Inr d)"
| "py_get v k d = Inl (Exn AttributeError ''get'')"

text \<open>\<open>xs[0]\<close>.\<close>

fun py_getitem0 :: "pyval \<Rightarrow> exn + pyval" where
  "py_getitem0 (PList []) = Inl (Exn IndexError ''list index out of range'')"
| "py_getitem0 (PList (x # xs)) = Inr x"
| "py_getitem0 (PStr []) = Inl (Exn IndexError ''string index out of range'')"
| "py_getitem0 (PStr (c # cs)) = Inr (PStr [c])"
| "py_getitem0 (PDict kvs) = Inl (Exn KeyError ''0'')"
| "py_getitem0 v = Inl (Exn TypeError ''bad subscript'')"

text \<open>\<open>v != 0\<close>: numbers compare by value, \<open>False\<close> equals \<open>0\<close>, nothing else does.\<close>

fun py_ne_zero :: "pyval \<Rightarrow> bool" where
  "py_ne_zero (PNum r) = (r \<noteq> 0)"
| "py_ne_zero (PBool b) = b"
| "py_ne_zero v = True"

section \<open>The libraries the module calls\<close>

text \<open>
  The exchange client object.  Each method either returns a value or raises.  Within one
  operation of the module no method is called twice with the same arguments, so a
  function of the arguments describes every behaviour of the exchange.
\<close>

record client =
  fetch_balance :: "exn + pyval"
  client_create_market_order :: "pyval \<Rightarrow> pyval \<Rightarrow> pyval \<Rightarrow> exn + pyval"
  create_order :: "pyval \<Rightarrow> pyval \<Rightarrow> pyval \<Rightarrow> pyval \<Rightarrow> pyval \<Rightarrow> pyval \<Rightarrow> exn + pyval"
  fetch_positions :: "pyval \<Rightarrow> exn + pyval"

text \<open>An HTTP response: what \<open>raise_for_status()\<close> and \<open>json()\<close> do on it.\<close>

record response =
  raise_for_status :: "exn option"
  json :: "exn + pyval"

text \<open>
  A table cell is a value or the missing marker \<open>NaN\<close>.  A table (DataFrame) is kept by
  columns, in order, with its row labels.
\<close>

datatype cell = NaN | Val pyval

record frame =
  index :: "cell list"
  cols :: "(string \<times> cell list) list"

text \<open>
  The environment: the client constructor \<open>ccxt.binance(config)\<close>, the transport
  \<open>requests.get(url, params=..., timeout=10)\<close>, and the pandas conversions whose
  behaviour on arbitrary input the module relies on without constraining it.
\<close>

record env =
  ccxt_binance :: "pyval \<Rightarrow> exn + client"
  requests_get :: "string \<Rightarrow> pyval \<Rightarrow> exn + response"
  pd_DataFrame :: "pyval \<Rightarrow> string list \<Rightarrow> exn + frame"
  pd_to_datetime :: "cell list \<Rightarrow> exn + cell list"
  astype_float :: "frame \<Rightarrow> exn + frame"
  pd_to_numeric :: "cell list \<Rightarrow> cell list"

section \<open>Client construction and credential check\<close>

text \<open>The configuration dict handed to the constructor.\<close>

definition client_config :: "pyval \<Rightarrow> pyval \<Rightarrow> pyval" where
  "client_config api_key secret_key =
     PDict [(''apiKey'', api_key),
            (''secret'', secret_key),
            (''options'', PDict [(''defaultType'', PStr ''future'')])]"

definition get_binance_client ::
  "env \<Rightarrow> pyval \<Rightarrow> pyval \<Rightarrow> (exn + client option) \<times> line list" where
  "get_binance_client E api_key secret_key =
     (if \<not> truthy api_key \<or> \<not> truthy secret_key then (Inr None, [])
      else
        (case ccxt_binance E (client_config api_key secret_key) of
           Inr exchange \<Rightarrow> (Inr (Some exchange), [])
         | Inl e \<Rightarrow>
             (Inr None,
              [Line (''CCXT istemcisi olu'' @ u_s @ ''turulurken hata: '' @ str_exn e)])))"

definition msg_no_client :: string where
  "msg_no_client =
     ''API anahtarlar'' @ u_i @ '' ile istemci olu'' @ u_s @ ''turulamad'' @ u_i @ ''.''"

definition msg_connected :: string where
  "msg_connected =
     ''API ba'' @ u_g @ ''lant'' @ u_i @ ''s'' @ u_i @ '' ba'' @ u_s @ ''ar'' @ u_i
       @ ''l'' @ u_i @ ''.''"

definition msg_auth :: "exn \<Rightarrow> string" where
  "msg_auth e = ''Kimlik do'' @ u_g @ ''rulama hatas'' @ u_i @ '': '' @ str_exn e"

definition msg_generic :: "exn \<Rightarrow> string" where
  "msg_generic e = ''Bir hata olu'' @ u_s @ ''tu: '' @ str_exn e"

definition test_api_connection ::
  "env \<Rightarrow> pyval \<Rightarrow> pyval \<Rightarrow> (exn + bool \<times> string) \<times> line list" where
  "test_api_connection E api_key secret_key =
     (case get_binance_client E api_key secret_key of
        (Inl e, out) \<Rightarrow> (Inl e, out)
      | (Inr None, out) \<Rightarrow> (Inr (False, msg_no_client), out)
      | (Inr (Some c), out) \<Rightarrow>
          (case fetch_balance c of
             Inr b \<Rightarrow> (Inr (True, msg_connected), out)
           | Inl e \<Rightarrow>
               (if exn_class_of e = AuthenticationError
                then (Inr (False, msg_auth e), out)
                else (Inr (False, msg_generic e), out))))"

section \<open>Balance\<close>

definition get_futures_balance :: "client option \<Rightarrow> (exn + pyval) \<times> line list" where
  "get_futures_balance cl =
     (case cl of
        None \<Rightarrow> (Inr PNone, [])
      | Some c \<Rightarrow>
          (case (case fetch_balance c of
                   Inl e \<Rightarrow> Inl e
                 | Inr balance \<Rightarrow>
                     (case py_getitem balance ''total'' of
                        Inl e \<Rightarrow> Inl e
                      | Inr totals \<Rightarrow> py_get totals ''USDT'' (PNum 0))) of
             Inr usdt_balance \<Rightarrow> (Inr usdt_balance, [])
           | Inl e \<Rightarrow>
               (Inr PNone,
                [Line (''Bakiye al'' @ u_i @ ''n'' @ u_i @ ''rken hata: '' @ str_exn e)])))"

section \<open>Open position\<close>

text \<open>The body of the \<open>try\<close> block of \<open>get_position\<close>.\<close>

definition position_body :: "client \<Rightarrow> pyval \<Rightarrow> exn + pyval" where
  "position_body c symbol =
     (case fetch_positions c (PList [symbol]) of
        Inl e \<Rightarrow> Inl e
      | Inr positions \<Rightarrow>
          (if truthy positions then
             (case py_getitem0 positions of
                Inl e \<Rightarrow> Inl e
              | Inr position \<Rightarrow>
                  (case py_get position ''contracts'' PNone of
                     Inl e \<Rightarrow> Inl e
                   | Inr n \<Rightarrow>
                       (if truthy n then
                          (case py_getitem position ''contracts'' of
                             Inl e \<Rightarrow> Inl e
                           | Inr n' \<Rightarrow> if py_ne_zero n' then Inr position else Inr PNone)
                        else Inr PNone)))
           else Inr PNone))"

definition get_position :: "client option \<Rightarrow> pyval \<Rightarrow> (exn + pyval) \<times> line list" where
  "get_position cl symbol =
     (case cl of
        None \<Rightarrow> (Inr PNone, [])
      | Some c \<Rightarrow>
          (case position_body c symbol of
             Inr r \<Rightarrow> (Inr r, [])
           | Inl e \<Rightarrow>
               (Inr PNone,
                [Line (''Pozisyon bilgisi al'' @ u_i @ ''n'' @ u_i @ ''rken hata: ''
                         @ str_exn e)])))"

section \<open>Market order with protective orders\<close>

definition msg_invalid_client :: string where
  "msg_invalid_client = ''Ge'' @ u_c @ ''ersiz istemci.''"

definition msg_order_ok :: string where
  "msg_order_ok =
     ''Emir ba'' @ u_s @ ''ar'' @ u_i @ ''yla olu'' @ u_s @ ''turuldu.''"

definition msg_order_failed :: "exn \<Rightarrow> string" where
  "msg_order_failed e = ''Emir olu'' @ u_s @ ''turulurken hata: '' @ str_exn e"

text \<open>
  The two protective blocks.  Each is an \<open>if\<close> around a \<open>try\<close> whose handler catches
  every exception and prints; so a block yields printed lines and nothing else.
\<close>

definition take_profit_block ::
  "client \<Rightarrow> pyval \<Rightarrow> pyval \<Rightarrow> pyval \<Rightarrow> pyval \<Rightarrow> line list" where
  "take_profit_block c symbol opposite_side amount take_profit_price =
     (if truthy take_profit_price then
        (case create_order c symbol (PStr ''TAKE_PROFIT_MARKET'') opposite_side amount PNone
                (PDict [(''stopPrice'', take_profit_price), (''reduceOnly'', PBool True)]) of
           Inr tp_order \<Rightarrow> [LineVal ''Take profit order created: '' tp_order]
         | Inl e \<Rightarrow>
             [Line (''Take profit emri olu'' @ u_s @ ''turulurken hata: '' @ str_exn e)])
      else [])"

definition stop_loss_block ::
  "client \<Rightarrow> pyval \<Rightarrow> pyval \<Rightarrow> pyval \<Rightarrow> pyval \<Rightarrow> line list" where
  "stop_loss_block c symbol opposite_side amount stop_loss_price =
     (if truthy stop_loss_price then
        (case create_order c symbol (PStr ''STOP_MARKET'') opposite_side amount PNone
                (PDict [(''stopPrice'', stop_loss_price), (''reduceOnly'', PBool True)]) of
           Inr sl_order \<Rightarrow> [LineVal ''Stop loss order created: '' sl_order]
         | Inl e \<Rightarrow>
             [Line (''Stop loss emri olu'' @ u_s @ ''turulurken hata: '' @ str_exn e)])
      else [])"

definition create_market_order ::
  "client option \<Rightarrow> pyval \<Rightarrow> pyval \<Rightarrow> pyval \<Rightarrow> pyval \<Rightarrow> pyval
     \<Rightarrow> (exn + pyval \<times> string) \<times> line list" where
  "create_market_order cl symbol side amount take_profit_price stop_loss_price =
     (case cl of
        None \<Rightarrow> (Inr (PNone, msg_invalid_client), [])
      | Some c \<Rightarrow>
          (case client_create_market_order c symbol side amount of
             Inl e \<Rightarrow> (Inr (PNone, msg_order_failed e), [])
           | Inr order \<Rightarrow>
               (let opposite_side = (if side = PStr ''buy'' then PStr ''sell'' else PStr ''buy'')
                in (Inr (order, msg_order_ok),
                    [LineVal ''Market order created: '' order]
                      @ take_profit_block c symbol opposite_side amount take_profit_price
                      @ stop_loss_block c symbol opposite_side amount stop_loss_price))))"

section \<open>Tables\<close>

text \<open>\<open>pd.DataFrame()\<close>: no rows and no columns.\<close>

definition empty_frame :: frame where
  "empty_frame = \<lparr>index = [], cols = []\<rparr>"

text \<open>\<open>df[name]\<close>.\<close>

definition frame_col :: "frame \<Rightarrow> string \<Rightarrow> exn + cell list" where
  "frame_col df name =
     (case map_of (cols df) name of
        Some xs \<Rightarrow> Inr xs
      | None \<Rightarrow> Inl (Exn KeyError name))"

text \<open>
  \<open>df[name] = values\<close>: replaces the column in place, or appends it; values of another
  length than the table are refused.
\<close>

definition col_set :: "frame \<Rightarrow> string \<Rightarrow> cell list \<Rightarrow> exn + frame" where
  "col_set df name xs =
     (if length xs \<noteq> length (index df) then Inl (Exn ValueError ''length mismatch'')
      else if name \<in> set (map fst (cols df))
        then Inr (df\<lparr>cols := map (\<lambda>(k, ys). if k = name then (k, xs) else (k, ys)) (cols df)\<rparr>)
        else Inr (df\<lparr>cols := cols df @ [(name, xs)]\<rparr>))"

text \<open>\<open>df.set_index(name, inplace=True)\<close>: the column becomes the row labels.\<close>

definition set_index :: "frame \<Rightarrow> string \<Rightarrow> exn + frame" where
  "set_index df name =
     (case map_of (cols df) name of
        Some xs \<Rightarrow> Inr \<lparr>index = xs, cols = filter (\<lambda>(k, ys). k \<noteq> name) (cols df)\<rparr>
      | None \<Rightarrow> Inl (Exn KeyError name))"

text \<open>\<open>df[[n1, n2, ...]]\<close>: the named columns in the given order; a missing one raises.\<close>

fun select_cols ::
  "(string \<times> cell list) list \<Rightarrow> string list \<Rightarrow> exn + (string \<times> cell list) list" where
  "select_cols cs [] = Inr []"
| "select_cols cs (k # ks) =
     (case map_of cs k of
        None \<Rightarrow> Inl (Exn KeyError k)
      | Some xs \<Rightarrow>
          (case select_cols cs ks of
             Inl e \<Rightarrow> Inl e
           | Inr r \<Rightarrow> Inr ((k, xs) # r)))"

definition select :: "frame \<Rightarrow> string list \<Rightarrow> exn + frame" where
  "select df names =
     (case select_cols (cols df) names of
        Inl e \<Rightarrow> Inl e
      | Inr cs \<Rightarrow> Inr (df\<lparr>cols := cs\<rparr>))"

text \<open>\<open>df.rename(columns=mapping, inplace=True)\<close>.\<close>

definition rename :: "frame \<Rightarrow> (string \<times> string) list \<Rightarrow> frame" where
  "rename df mapping =
     df\<lparr>cols := map (\<lambda>(k, xs). (case map_of mapping k of Some k' \<Rightarrow> k' | None \<Rightarrow> k, xs))
                    (cols df)\<rparr>"

text \<open>
  \<open>df.dropna()\<close>: a row stays when none of its cells is missing; \<open>None\<close> counts as
  missing, as \<open>NaN\<close> does.
\<close>

fun is_null :: "cell \<Rightarrow> bool" where
  "is_null NaN = True"
| "is_null (Val PNone) = True"
| "is_null (Val v) = False"

definition keep :: "'a list \<Rightarrow> bool list \<Rightarrow> 'a list" where
  "keep xs bs = map fst (filter snd (zip xs bs))"

definition notna_mask :: "nat \<Rightarrow> cell list list \<Rightarrow> bool list" where
  "notna_mask n css =
     foldr (\<lambda>xs m. map (\<lambda>(x, b). \<not> is_null x \<and> b) (zip xs m)) css (replicate n True)"

definition dropna :: "frame \<Rightarrow> frame" where
  "dropna df =
     (let present = notna_mask (length (index df)) (map snd (cols df))
      in \<lparr>index = keep (index df) present,
          cols = map (\<lambda>(k, xs). (k, keep xs present)) (cols df)\<rparr>)"

text \<open>
  \<open>pd.DataFrame(records)\<close> on a list of dicts: one column per key, in order of first
  appearance, one row per dict, \<open>NaN\<close> where a dict lacks the key, rows labelled
  \<open>0, 1, ...\<close>.
\<close>

fun py_items :: "pyval \<Rightarrow> (string \<times> pyval) list" where
  "py_items (PDict kvs) = kvs"
| "py_items v = []"

definition record_cell :: "string \<Rightarrow> pyval \<Rightarrow> cell" where
  "record_cell k t = (case map_of (py_items t) k of Some v \<Rightarrow> Val v | None \<Rightarrow> NaN)"

definition frame_of_records :: "pyval list \<Rightarrow> frame" where
  "frame_of_records ts =
     \<lparr>index = map (\<lambda>i. Val (PNum (real i))) [0 ..< length ts],
      cols = map (\<lambda>k. (k, map (record_cell k) ts))
               (rev (remdups (rev (concat (map (\<lambda>t. map fst (py_items t)) ts)))))\<rparr>"

section \<open>Historical candles\<close>

text \<open>\<open>symbol.replace('/', '')\<close>; only a string has the method.\<close>

fun py_remove_slash :: "pyval \<Rightarrow> exn + pyval" where
  "py_remove_slash (PStr s) = Inr (PStr (filter (\<lambda>c. c \<noteq> CHR ''/'') s))"
| "py_remove_slash v = Inl (Exn AttributeError ''replace'')"

definition klines_url :: string where
  "klines_url = ''https://fapi.binance.com/fapi/v1/klines''"

definition kline_columns :: "string list" where
  "kline_columns =
     [''timestamp'', ''open'', ''high'', ''low'', ''close'', ''volume'', ''close_time'',
      ''quote_asset_volume'', ''number_of_trades'', ''taker_buy_base_asset_volume'',
      ''taker_buy_quote_asset_volume'', ''ignore'']"

text \<open>The query parameters \<open>params\<close> of the klines request.\<close>

definition klines_params :: "pyval \<Rightarrow> pyval \<Rightarrow> pyval \<Rightarrow> pyval" where
  "klines_params formatted_symbol timeframe limit =
     PDict [(''symbol'', formatted_symbol),
            (''interval'', timeframe),
            (''limit'', limit)]"

text \<open>
  \<open>requests.get(...)\<close>, \<open>raise_for_status()\<close>, \<open>json()\<close>: the first three statements
  after the URL in both public-endpoint functions.
\<close>

definition fetch_json :: "env \<Rightarrow> string \<Rightarrow> pyval \<Rightarrow> exn + pyval" where
  "fetch_json E url params =
     (case requests_get E url params of
        Inl e \<Rightarrow> Inl e
      | Inr resp \<Rightarrow>
          (case raise_for_status resp of
             Some e \<Rightarrow> Inl e
           | None \<Rightarrow> json resp))"

text \<open>The reshaping of a non-empty klines answer (lines 68 to 74 of the module).\<close>

definition klines_frame :: "env \<Rightarrow> pyval \<Rightarrow> exn + frame" where
  "klines_frame E data =
     (case pd_DataFrame E data kline_columns of
        Inl e \<Rightarrow> Inl e
      | Inr df \<Rightarrow>
     (case frame_col df ''timestamp'' of
        Inl e \<Rightarrow> Inl e
      | Inr ts \<Rightarrow>
     (case pd_to_datetime E ts of
        Inl e \<Rightarrow> Inl e
      | Inr ts' \<Rightarrow>
     (case col_set df ''timestamp'' ts' of
        Inl e \<Rightarrow> Inl e
      | Inr df1 \<Rightarrow>
     (case set_index df1 ''timestamp'' of
        Inl e \<Rightarrow> Inl e
      | Inr df2 \<Rightarrow>
     (case select df2 [''open'', ''high'', ''low'', ''close'', ''volume''] of
        Inl e \<Rightarrow> Inl e
      | Inr df3 \<Rightarrow> astype_float E df3))))))"

text \<open>The body of the \<open>try\<close> block of \<open>get_historical_data\<close>.\<close>

definition historical_body :: "env \<Rightarrow> pyval \<Rightarrow> pyval \<Rightarrow> pyval \<Rightarrow> exn + frame" where
  "historical_body E symbol timeframe limit =
     (case py_remove_slash symbol of
        Inl e \<Rightarrow> Inl e
      | Inr formatted_symbol \<Rightarrow>
          (case fetch_json E klines_url (klines_params formatted_symbol timeframe limit) of
             Inl e \<Rightarrow> Inl e
           | Inr data \<Rightarrow>
               (if \<not> truthy data then Inr empty_frame
                else klines_frame E data)))"

text \<open>
  The \<open>client\<close> parameter is kept for compatibility and is not used.  The result is the
  table, or \<open>None\<close>.
\<close>

definition get_historical_data ::
  "env \<Rightarrow> client option \<Rightarrow> pyval \<Rightarrow> pyval \<Rightarrow> pyval \<Rightarrow> (exn + frame option) \<times> line list" where
  "get_historical_data E cl symbol timeframe limit =
     (case historical_body E symbol timeframe limit of
        Inr df \<Rightarrow> (Inr (Some df), [])
      | Inl e \<Rightarrow>
          (if exn_class_of e = RequestException
           then (Inr None,
                 [Line (''Ge'' @ u_c @ ''mi'' @ u_s @ '' veri al'' @ u_i @ ''n'' @ u_i
                          @ ''rken API hatas'' @ u_i @ '': '' @ str_exn e)])
           else (Inr None,
                 [Line (''Ge'' @ u_c @ ''mi'' @ u_s @ '' veri i'' @ u_s
                          @ ''lenirken hata: '' @ str_exn e)])))"

section \<open>24-hour ticker\<close>

definition ticker_url :: string where
  "ticker_url = ''https://fapi.binance.com/fapi/v1/ticker/24hr''"

text \<open>\<open>for t in data\<close>: what iterating a value yields.\<close>

fun py_iter :: "pyval \<Rightarrow> exn + pyval list" where
  "py_iter (PList xs) = Inr xs"
| "py_iter (PStr s) = Inr (map (\<lambda>c. PStr [c]) s)"
| "py_iter (PDict kvs) = Inr (map (\<lambda>(k, v). PStr k) kvs)"
| "py_iter v = Inl (Exn TypeError ''not iterable'')"

text \<open>\<open>s.endswith(t)\<close> on strings, and as a method call on a value.\<close>

definition ends_with :: "string \<Rightarrow> string \<Rightarrow> bool" where
  "ends_with s t = (length t \<le> length s \<and> drop (length s - length t) s = t)"

fun py_endswith :: "pyval \<Rightarrow> string \<Rightarrow> exn + bool" where
  "py_endswith (PStr s) t = Inr (ends_with s t)"
| "py_endswith v t = Inl (Exn AttributeError ''endswith'')"

text \<open>
  \<open>[t for t in data if t['symbol'].endswith('USDT')]\<close>: the first entry on which the
  condition raises ends the comprehension.
\<close>

fun usdt_filter :: "pyval list \<Rightarrow> exn + pyval list" where
  "usdt_filter [] = Inr []"
| "usdt_filter (t # ts) =
     (case py_getitem t ''symbol'' of
        Inl e \<Rightarrow> Inl e
      | Inr s \<Rightarrow>
          (case py_endswith s ''USDT'' of
             Inl e \<Rightarrow> Inl e
           | Inr b \<Rightarrow>
               (case usdt_filter ts of
                  Inl e \<Rightarrow> Inl e
                | Inr r \<Rightarrow> Inr (if b then t # r else r))))"

text \<open>The four column names after renaming.\<close>

definition col_symbol :: string where "col_symbol = ''Sembol''"
definition col_change :: string where
  "col_change = ''De'' @ u_g @ ''i'' @ u_s @ ''im (%)''"
definition col_price :: string where "col_price = ''Son Fiyat''"
definition col_volume :: string where "col_volume = ''Hacim (USDT)''"

text \<open>
  \<open>df[name] = pd.to_numeric(df[name], errors='coerce')\<close>.  With \<open>errors='coerce'\<close>
  the conversion does not raise; what it makes of each cell is left to the environment.
  A result of another length than the column, which pandas never gives, is refused by
  the assignment.
\<close>

definition to_numeric_col :: "env \<Rightarrow> frame \<Rightarrow> string \<Rightarrow> exn + frame" where
  "to_numeric_col E df name =
     (case frame_col df name of
        Inl e \<Rightarrow> Inl e
      | Inr xs \<Rightarrow> col_set df name (pd_to_numeric E xs))"

text \<open>
  The symbol rewriting \<open>lambda s: f"{s[:-4]}/{s[-4:]}" if s.endswith('USDT') else s\<close>,
  and its application to a column.
\<close>

definition slash_symbol :: "string \<Rightarrow> string" where
  "slash_symbol s =
     (if ends_with s ''USDT''
      then take (length s - 4) s @ ''/'' @ drop (length s - 4) s
      else s)"

fun fix_symbol :: "cell \<Rightarrow> exn + cell" where
  "fix_symbol (Val (PStr s)) = Inr (Val (PStr (slash_symbol s)))"
| "fix_symbol c = Inl (Exn AttributeError ''endswith'')"

fun apply_col :: "(cell \<Rightarrow> exn + cell) \<Rightarrow> cell list \<Rightarrow> exn + cell list" where
  "apply_col f [] = Inr []"
| "apply_col f (x # xs) =
     (case f x of
        Inl e \<Rightarrow> Inl e
      | Inr y \<Rightarrow>
          (case apply_col f xs of
             Inl e \<Rightarrow> Inl e
           | Inr ys \<Rightarrow> Inr (y # ys)))"

text \<open>The table built from a non-empty list of USDT tickers (lines 130 to 150).\<close>

definition ticker_frame :: "env \<Rightarrow> pyval list \<Rightarrow> exn + frame" where
  "ticker_frame E usdt_tickers =
     (case select (frame_of_records usdt_tickers)
             [''symbol'', ''priceChangePercent'', ''lastPrice'', ''quoteVolume''] of
        Inl e \<Rightarrow> Inl e
      | Inr df0 \<Rightarrow>
     (let df1 = rename df0
                  [(''symbol'', col_symbol), (''priceChangePercent'', col_change),
                   (''lastPrice'', col_price), (''quoteVolume'', col_volume)]
      in
     (case to_numeric_col E df1 col_change of
        Inl e \<Rightarrow> Inl e
      | Inr df2 \<Rightarrow>
     (case to_numeric_col E df2 col_price of
        Inl e \<Rightarrow> Inl e
      | Inr df3 \<Rightarrow>
     (case to_numeric_col E df3 col_volume of
        Inl e \<Rightarrow> Inl e
      | Inr df4 \<Rightarrow>
     (case frame_col df4 col_symbol of
        Inl e \<Rightarrow> Inl e
      | Inr syms \<Rightarrow>
     (case apply_col fix_symbol syms of
        Inl e \<Rightarrow> Inl e
      | Inr syms' \<Rightarrow>
     (case col_set df4 col_symbol syms' of
        Inl e \<Rightarrow> Inl e
      | Inr df5 \<Rightarrow> Inr (dropna df5)))))))))"

text \<open>The body of the \<open>try\<close> block of \<open>get_24h_ticker\<close>.\<close>

definition ticker_body :: "env \<Rightarrow> exn + frame" where
  "ticker_body E =
     (case fetch_json E ticker_url PNone of
        Inl e \<Rightarrow> Inl e
      | Inr data \<Rightarrow>
          (case py_iter data of
             Inl e \<Rightarrow> Inl e
           | Inr items \<Rightarrow>
               (case usdt_filter items of
                  Inl e \<Rightarrow> Inl e
                | Inr usdt_tickers \<Rightarrow>
                    (if usdt_tickers = [] then Inr empty_frame
                     else ticker_frame E usdt_tickers))))"

definition get_24h_ticker :: "env \<Rightarrow> (exn + frame option) \<times> line list" where
  "get_24h_ticker E =
     (case ticker_body E of
        Inr df \<Rightarrow> (Inr (Some df), [])
      | Inl e \<Rightarrow>
          (if exn_class_of e = RequestException
           then (Inr None,
                 [Line (''Binance API'' @ [CHR 0x27] @ ''sine ba'' @ u_g @ ''lan'' @ u_i
                          @ ''rken hata (ticker): '' @ str_exn e)])
           else (Inr None,
                 [Line (''24 saatlik ticker verisi i'' @ u_s @ ''lenirken hata: ''
                          @ str_exn e)])))"

section \<open>Example clients and environments\<close>

text \<open>
  Concrete clients and environments on which the results below are instantiated.  The
  example \<open>to_numeric\<close> keeps numbers and marks every other cell as missing; the example
  data hold no numeric strings.
\<close>

definition sample_order :: pyval where
  "sample_order = PDict [(''id'', PStr ''1001''), (''status'', PStr ''closed'')]"

definition demo_client :: client where
  "demo_client =
     \<lparr>fetch_balance = Inr (PDict [(''total'', PDict [(''BTC'', PNum 1)])]),
      client_create_market_order = (\<lambda>symbol side amount. Inr sample_order),
      create_order = (\<lambda>symbol kind side amount price params.
                        Inl (Exn OtherException ''order rejected'')),
      fetch_positions = (\<lambda>symbols.
                        Inr (PList [PDict [(''contracts'', PNum 0)],
                                    PDict [(''contracts'', PNum 5)]]))\<rparr>"

definition failing_client :: client where
  "failing_client =
     \<lparr>fetch_balance = Inl (Exn AuthenticationError ''invalid api key''),
      client_create_market_order = (\<lambda>symbol side amount.
                        Inl (Exn OtherException ''insufficient margin'')),
      create_order = (\<lambda>symbol kind side amount price params.
                        Inl (Exn OtherException ''order rejected'')),
      fetch_positions = (\<lambda>symbols. Inl (Exn OtherException ''timed out''))\<rparr>"

definition holding_client :: client where
  "holding_client =
     \<lparr>fetch_balance = Inl (Exn OtherException ''timed out''),
      client_create_market_order = (\<lambda>symbol side amount. Inr sample_order),
      create_order = (\<lambda>symbol kind side amount price params. Inr sample_order),
      fetch_positions = (\<lambda>symbols.
                        Inr (PList [PDict [(''symbol'', PStr ''BTC/USDT''),
                                           (''contracts'', PNum 2)]]))\<rparr>"

definition flat_client :: client where
  "flat_client = holding_client\<lparr>fetch_positions := (\<lambda>symbols. Inr (PList []))\<rparr>"

fun numeric_cell :: "cell \<Rightarrow> cell" where
  "numeric_cell (Val (PNum r)) = Val (PNum r)"
| "numeric_cell c = NaN"

definition offline_env :: env where
  "offline_env =
     \<lparr>ccxt_binance = (\<lambda>config. Inl (Exn OtherException ''no such exchange'')),
      requests_get = (\<lambda>url params. Inl (Exn RequestException ''connection refused'')),
      pd_DataFrame = (\<lambda>data names. Inl (Exn ValueError ''bad shape'')),
      pd_to_datetime = (\<lambda>xs. Inr xs),
      astype_float = (\<lambda>df. Inr df),
      pd_to_numeric = map numeric_cell\<rparr>"

definition env_with :: "client \<Rightarrow> env" where
  "env_with c = offline_env\<lparr>ccxt_binance := (\<lambda>config. Inr c)\<rparr>"

section \<open>The ticker table as the specification describes it\<close>

text \<open>
  The specification's account of the ticker snapshot, stated on the upstream list: the
  entries quoted in USDT, the separated form of an entry's symbol, the numeric coercion
  of one upstream field, and the symbols of the rows in which all three numeric fields
  survive the coercion.
\<close>

definition is_usdt_entry :: "pyval \<Rightarrow> bool" where
  "is_usdt_entry t =
     (case py_getitem t ''symbol'' of
        Inr (PStr s) \<Rightarrow> ends_with s ''USDT''
      | _ \<Rightarrow> False)"

definition separated_symbol :: "pyval \<Rightarrow> cell" where
  "separated_symbol t =
     (case py_getitem t ''symbol'' of
        Inr (PStr s) \<Rightarrow> Val (PStr (take (length s - 4) s @ ''/USDT''))
      | _ \<Rightarrow> NaN)"

definition coerced :: "env \<Rightarrow> string \<Rightarrow> pyval list \<Rightarrow> cell list" where
  "coerced E k ts = pd_to_numeric E (map (record_cell k) ts)"

definition surviving_symbols :: "env \<Rightarrow> pyval list \<Rightarrow> cell list" where
  "surviving_symbols E us =
     map (\<lambda>(t, c, p, v). separated_symbol t)
       (filter (\<lambda>(t, c, p, v). \<not> is_null c \<and> \<not> is_null p \<and> \<not> is_null v)
          (zip us (zip (coerced E ''priceChangePercent'' us)
                    (zip (coerced E ''lastPrice'' us) (coerced E ''quoteVolume'' us)))))"

section \<open>Example responses of the public endpoints\<close>

text \<open>
  Responses, upstream data and environments for the two public endpoints, on which the
  results about candles and tickers are instantiated.
\<close>

definition empty_response :: response where
  "empty_response = \<lparr>raise_for_status = None, json = Inr (PList [])\<rparr>"

definition kline_row :: pyval where
  "kline_row =
     PList [PNum 1700000000000, PStr ''n/a'', PStr ''n/a'', PStr ''n/a'', PStr ''n/a'',
            PStr ''n/a'', PNum 1700003599999, PStr ''0'', PNum 0, PStr ''0'', PStr ''0'',
            PStr ''0'']"

definition quiet_env :: env where
  "quiet_env = offline_env\<lparr>requests_get := (\<lambda>url params. Inr empty_response)\<rparr>"

definition http_error_env :: env where
  "http_error_env =
     offline_env\<lparr>requests_get := (\<lambda>url params.
        Inr \<lparr>raise_for_status = Some (Exn RequestException ''400 Client Error''),
             json = Inr (PDict [(''code'', PNum (- 1121))])\<rparr>)\<rparr>"

definition bad_json_env :: env where
  "bad_json_env =
     offline_env\<lparr>requests_get := (\<lambda>url params.
        Inr \<lparr>raise_for_status = None,
             json = Inl (Exn RequestException ''Expecting value'')\<rparr>)\<rparr>"

definition unparsable_env :: env where
  "unparsable_env =
     \<lparr>ccxt_binance = (\<lambda>config. Inl (Exn OtherException ''no such exchange'')),
      requests_get = (\<lambda>url params.
        Inr \<lparr>raise_for_status = None, json = Inr (PList [kline_row])\<rparr>),
      pd_DataFrame = (\<lambda>data names.
        Inr \<lparr>index = [Val (PNum 0)], cols = map (\<lambda>k. (k, [Val (PStr ''n/a'')])) names\<rparr>),
      pd_to_datetime = (\<lambda>xs. Inr xs),
      astype_float = (\<lambda>df. Inl (Exn ValueError ''could not convert string to float'')),
      pd_to_numeric = map numeric_cell\<rparr>"

definition btc_ticker :: pyval where
  "btc_ticker =
     PDict [(''symbol'', PStr ''BTCUSDT''), (''priceChangePercent'', PNone),
            (''lastPrice'', PNum 50000), (''quoteVolume'', PNum 1000)]"

definition eth_ticker :: pyval where
  "eth_ticker =
     PDict [(''symbol'', PStr ''ETHUSDT''), (''priceChangePercent'', PNum 2.5),
            (''lastPrice'', PNum 3000), (''quoteVolume'', PNum 500)]"

definition busd_ticker :: pyval where
  "busd_ticker =
     PDict [(''symbol'', PStr ''BTCBUSD''), (''priceChangePercent'', PNum 1),
            (''lastPrice'', PNum 50010), (''quoteVolume'', PNum 20)]"

definition ticker_env :: env where
  "ticker_env =
     offline_env\<lparr>requests_get := (\<lambda>url params.
        Inr \<lparr>raise_for_status = None,
             json = Inr (PList [btc_ticker, eth_ticker, busd_ticker])\<rparr>)\<rparr>"

definition eth_frame :: frame where
  "eth_frame =
     \<lparr>index = [Val (PNum 1)],
      cols = [(col_symbol, [Val (PStr ''ETH/USDT'')]), (col_change, [Val (PNum 2.5)]),
              (col_price, [Val (PNum 3000)]), (col_volume, [Val (PNum 500)])]\<rparr>"

section \<open>Results\<close>

text \<open>
  Claim C3.  When the API key or the secret key is empty or missing (falsy),
  \<open>get_binance_client\<close> returns \<open>None\<close>; and when the constructor \<open>ccxt.binance\<close>
  raises on the configuration, it returns \<open>None\<close> as well.
\<close>

theorem get_binance_client_null:
  "(\<not> truthy api_key \<or> \<not> truthy secret_key
      \<longrightarrow> fst (get_binance_client E api_key secret_key) = Inr None)
   \<and> (ccxt_binance E (client_config api_key secret_key) = Inl e
      \<longrightarrow> fst (get_binance_client E api_key secret_key) = Inr None)"
  by (simp add: get_binance_client_def client_config_def)

theorem get_binance_client_null_witness:
  "fst (get_binance_client offline_env (PStr '''') (PStr ''secret'')) = Inr None
   \<and> fst (get_binance_client offline_env (PStr ''key'') PNone) = Inr None
   \<and> fst (get_binance_client offline_env (PStr ''key'') (PStr ''secret'')) = Inr None"
  using get_binance_client_null
          [where api_key = "PStr ''''" and secret_key = "PStr ''secret''" and E = offline_env]
        get_binance_client_null
          [where api_key = "PStr ''key''" and secret_key = PNone and E = offline_env]
        get_binance_client_null
          [where api_key = "PStr ''key''" and secret_key = "PStr ''secret''" and E = offline_env
             and e = "Exn OtherException ''no such exchange''"]
  by (simp add: offline_env_def client_config_def)

text \<open>
  Claim C6.  With a client whose balance fetch succeeds and whose \<open>total\<close> map has no
  \<open>USDT\<close> entry, \<open>get_futures_balance\<close> returns the number 0.  Without a client, or
  when the fetch raises, it returns \<open>None\<close>.
\<close>

theorem get_futures_balance_results:
  "(fetch_balance c = Inr (PDict b) \<and> map_of b ''total'' = Some (PDict totals)
      \<and> map_of totals ''USDT'' = None
      \<longrightarrow> fst (get_futures_balance (Some c)) = Inr (PNum 0))
   \<and> fst (get_futures_balance None) = Inr PNone
   \<and> (fetch_balance c = Inl e \<longrightarrow> fst (get_futures_balance (Some c)) = Inr PNone)"
  by (simp add: get_futures_balance_def)

theorem get_futures_balance_results_witness:
  "fst (get_futures_balance (Some demo_client)) = Inr (PNum 0)
   \<and> fst (get_futures_balance None) = Inr PNone
   \<and> fst (get_futures_balance (Some failing_client)) = Inr PNone"
  using get_futures_balance_results
          [where c = demo_client and b = "[(''total'', PDict [(''BTC'', PNum 1)])]"
             and totals = "[(''BTC'', PNum 1)]"]
        get_futures_balance_results
          [where c = failing_client and e = "Exn AuthenticationError ''invalid api key''"]
  by (simp add: demo_client_def failing_client_def)

lemma position_body_Some:
  assumes "position_body c symbol = Inr p" and "p \<noteq> PNone"
  shows "\<exists>positions kvs n.
           fetch_positions c (PList [symbol]) = Inr positions
           \<and> py_getitem0 positions = Inr p \<and> p = PDict kvs
           \<and> map_of kvs ''contracts'' = Some n \<and> truthy n \<and> py_ne_zero n"
proof -
  from assms obtain positions where fp: "fetch_positions c (PList [symbol]) = Inr positions"
    by (auto simp: position_body_def split: sum.splits)
  from assms fp have tr: "truthy positions"
    by (auto simp: position_body_def split: if_splits)
  from assms fp tr obtain q where q: "py_getitem0 positions = Inr q"
    by (auto simp: position_body_def split: sum.splits)
  from assms fp tr q obtain n where n: "py_get q ''contracts'' PNone = Inr n"
    by (auto simp: position_body_def split: sum.splits)
  from assms fp tr q n have tn: "truthy n"
    by (auto simp: position_body_def split: if_splits)
  from n tn obtain kvs where kvs: "q = PDict kvs" "map_of kvs ''contracts'' = Some n"
    by (cases q) (auto split: option.splits)
  from assms fp tr q n tn kvs have "p = q" "py_ne_zero n"
    by (auto simp: position_body_def split: if_splits)
  with fp q kvs tn show ?thesis by auto
qed

text \<open>
  Claim C7.  Whatever \<open>get_position\<close> returns other than \<open>None\<close> is the first
  descriptor of the fetched list, a dict whose \<open>contracts\<close> entry is truthy and differs
  from 0.  A first descriptor with contract count 0, an empty list, a failing fetch and a
  missing client all give \<open>None\<close>.
\<close>

theorem get_position_nonzero_only:
  "(fst (get_position cl symbol) = Inr p \<and> p \<noteq> PNone
      \<longrightarrow> (\<exists>c positions kvs n. cl = Some c
             \<and> fetch_positions c (PList [symbol]) = Inr positions
             \<and> py_getitem0 positions = Inr p \<and> p = PDict kvs
             \<and> map_of kvs ''contracts'' = Some n \<and> truthy n \<and> py_ne_zero n))
   \<and> (fetch_positions c (PList [symbol]) = Inr (PList (PDict kvs # rest))
        \<and> map_of kvs ''contracts'' = Some (PNum 0)
      \<longrightarrow> fst (get_position (Some c) symbol) = Inr PNone)
   \<and> (fetch_positions c (PList [symbol]) = Inr (PList [])
      \<longrightarrow> fst (get_position (Some c) symbol) = Inr PNone)
   \<and> (fetch_positions c (PList [symbol]) = Inl e
      \<longrightarrow> fst (get_position (Some c) symbol) = Inr PNone)
   \<and> fst (get_position None symbol) = Inr PNone"
proof (intro conjI impI)
  assume a: "fst (get_position cl symbol) = Inr p \<and> p \<noteq> PNone"
  then obtain c where c: "cl = Some c"
    by (cases cl) (auto simp: get_position_def)
  with a have "position_body c symbol = Inr p"
    by (auto simp: get_position_def split: sum.splits)
  with a c position_body_Some[of c symbol p]
  show "\<exists>c positions kvs n. cl = Some c
             \<and> fetch_positions c (PList [symbol]) = Inr positions
             \<and> py_getitem0 positions = Inr p \<and> p = PDict kvs
             \<and> map_of kvs ''contracts'' = Some n \<and> truthy n \<and> py_ne_zero n"
    by blast
qed (simp_all add: get_position_def position_body_def)

theorem get_position_nonzero_only_witness:
  "fst (get_position (Some holding_client) (PStr ''BTC/USDT''))
     = Inr (PDict [(''symbol'', PStr ''BTC/USDT''), (''contracts'', PNum 2)])
   \<and> fst (get_position (Some demo_client) (PStr ''BTC/USDT'')) = Inr PNone
   \<and> fst (get_position (Some flat_client) (PStr ''BTC/USDT'')) = Inr PNone
   \<and> fst (get_position (Some failing_client) (PStr ''BTC/USDT'')) = Inr PNone"
proof -
  have h: "fst (get_position (Some holding_client) (PStr ''BTC/USDT''))
             = Inr (PDict [(''symbol'', PStr ''BTC/USDT''), (''contracts'', PNum 2)])"
    by (simp add: get_position_def position_body_def holding_client_def)
  from get_position_nonzero_only
         [where cl = "Some holding_client" and symbol = "PStr ''BTC/USDT''"
            and p = "PDict [(''symbol'', PStr ''BTC/USDT''), (''contracts'', PNum 2)]"] h
  have "\<exists>c positions kvs n. Some holding_client = Some c
          \<and> fetch_positions c (PList [PStr ''BTC/USDT'']) = Inr positions
          \<and> py_getitem0 positions
              = Inr (PDict [(''symbol'', PStr ''BTC/USDT''), (''contracts'', PNum 2)])
          \<and> PDict [(''symbol'', PStr ''BTC/USDT''), (''contracts'', PNum 2)] = PDict kvs
          \<and> map_of kvs ''contracts'' = Some n \<and> truthy n \<and> py_ne_zero n"
    by simp
  show ?thesis
    using h
      get_position_nonzero_only
        [where c = demo_client and symbol = "PStr ''BTC/USDT''"
            and kvs = "[(''contracts'', PNum 0)]" and rest = "[PDict [(''contracts'', PNum 5)]]"]
      get_position_nonzero_only [where c = flat_client and symbol = "PStr ''BTC/USDT''"]
      get_position_nonzero_only
        [where c = failing_client and symbol = "PStr ''BTC/USDT''"
            and e = "Exn OtherException ''timed out''"]
    by (simp add: demo_client_def flat_client_def holding_client_def failing_client_def)
qed

text \<open>
  Claim C10.  Only the first descriptor of the fetched list is inspected: when its
  \<open>contracts\<close> entry is missing or falsy (zero included), \<open>get_position\<close> returns
  \<open>None\<close>, whatever descriptors follow it in the list.
\<close>

theorem get_position_first_only:
  assumes "fetch_positions c (PList [symbol]) = Inr (PList (PDict kvs # rest))"
    and "map_of kvs ''contracts'' = None
         \<or> (\<exists>n. map_of kvs ''contracts'' = Some n \<and> \<not> truthy n)"
  shows "fst (get_position (Some c) symbol) = Inr PNone"
  using assms by (auto simp: get_position_def position_body_def)

theorem get_position_first_only_witness:
  "fetch_positions demo_client (PList [PStr ''BTC/USDT''])
     = Inr (PList [PDict [(''contracts'', PNum 0)], PDict [(''contracts'', PNum 5)]])
   \<and> fst (get_position (Some demo_client) (PStr ''BTC/USDT'')) = Inr PNone"
proof -
  have f: "fetch_positions demo_client (PList [PStr ''BTC/USDT''])
     = Inr (PList (PDict [(''contracts'', PNum 0)] # [PDict [(''contracts'', PNum 5)]]))"
    by (simp add: demo_client_def)
  have z: "map_of [(''contracts'', PNum 0)] ''contracts'' = None
     \<or> (\<exists>n. map_of [(''contracts'', PNum 0)] ''contracts'' = Some n \<and> \<not> truthy n)"
    by simp
  from get_position_first_only [OF f z] f show ?thesis by simp
qed

text \<open>
  Claim C8.  \<open>test_api_connection\<close> returns a pair of a boolean and a message:
  \<open>False\<close> with the construction-failure message when no client could be built,
  \<open>True\<close> with the success message when the balance fetch succeeds, \<open>False\<close> with the
  authentication message when the fetch raises an authentication error, and \<open>False\<close>
  with the generic message when it raises anything else.  The authentication message,
  the generic message and the construction-failure message are pairwise different,
  whatever the exceptions say.
\<close>

theorem test_api_connection_messages:
  "(fst (get_binance_client E api_key secret_key) = Inr None
      \<longrightarrow> fst (test_api_connection E api_key secret_key) = Inr (False, msg_no_client))
   \<and> (fst (get_binance_client E api_key secret_key) = Inr (Some c) \<and> fetch_balance c = Inr b
      \<longrightarrow> fst (test_api_connection E api_key secret_key) = Inr (True, msg_connected))
   \<and> (fst (get_binance_client E api_key secret_key) = Inr (Some c) \<and> fetch_balance c = Inl e
        \<and> exn_class_of e = AuthenticationError
      \<longrightarrow> fst (test_api_connection E api_key secret_key) = Inr (False, msg_auth e))
   \<and> (fst (get_binance_client E api_key secret_key) = Inr (Some c) \<and> fetch_balance c = Inl e
        \<and> exn_class_of e \<noteq> AuthenticationError
      \<longrightarrow> fst (test_api_connection E api_key secret_key) = Inr (False, msg_generic e))
   \<and> msg_auth e1 \<noteq> msg_generic e2
   \<and> msg_no_client \<noteq> msg_auth e1 \<and> msg_no_client \<noteq> msg_generic e2"
  by (auto simp: test_api_connection_def msg_auth_def msg_generic_def msg_no_client_def
           split: prod.splits sum.splits option.splits)

theorem test_api_connection_messages_witness:
  "fst (test_api_connection offline_env (PStr ''key'') (PStr '''')) = Inr (False, msg_no_client)
   \<and> fst (test_api_connection (env_with demo_client) (PStr ''key'') (PStr ''secret''))
       = Inr (True, msg_connected)
   \<and> fst (test_api_connection (env_with failing_client) (PStr ''key'') (PStr ''secret''))
       = Inr (False, msg_auth (Exn AuthenticationError ''invalid api key''))
   \<and> fst (test_api_connection (env_with holding_client) (PStr ''key'') (PStr ''secret''))
       = Inr (False, msg_generic (Exn OtherException ''timed out''))"
proof -
  have g: "fst (get_binance_client offline_env (PStr ''key'') (PStr '''')) = Inr None"
    "\<And>c. fst (get_binance_client (env_with c) (PStr ''key'') (PStr ''secret'')) = Inr (Some c)"
    by (simp_all add: get_binance_client_def env_with_def offline_env_def)
  show ?thesis
    using g
      test_api_connection_messages
        [where E = offline_env and api_key = "PStr ''key''" and secret_key = "PStr ''''"]
      test_api_connection_messages
        [where E = "env_with demo_client" and api_key = "PStr ''key''"
            and secret_key = "PStr ''secret''" and c = demo_client
            and b = "PDict [(''total'', PDict [(''BTC'', PNum 1)])]"]
      test_api_connection_messages
        [where E = "env_with failing_client" and api_key = "PStr ''key''"
            and secret_key = "PStr ''secret''" and c = failing_client
            and e = "Exn AuthenticationError ''invalid api key''"]
      test_api_connection_messages
        [where E = "env_with holding_client" and api_key = "PStr ''key''"
            and secret_key = "PStr ''secret''" and c = holding_client
            and e = "Exn OtherException ''timed out''"]
    by (simp add: demo_client_def failing_client_def holding_client_def)
qed

text \<open>
  Claim C1.  When the primary market-order call succeeds, \<open>create_market_order\<close>
  returns that order with the success message, for every take-profit and stop-loss price
  and whatever the protective-order calls do.  When a protective call is made and raises,
  the failure is printed inside the function.
\<close>

theorem create_market_order_primary_wins:
  assumes "client_create_market_order c symbol side amount = Inr order"
  shows "fst (create_market_order (Some c) symbol side amount tp sl) = Inr (order, msg_order_ok)
     \<and> (truthy tp \<and> create_order c symbol (PStr ''TAKE_PROFIT_MARKET'')
            (if side = PStr ''buy'' then PStr ''sell'' else PStr ''buy'') amount PNone
            (PDict [(''stopPrice'', tp), (''reduceOnly'', PBool True)]) = Inl e
        \<longrightarrow> Line (''Take profit emri olu'' @ u_s @ ''turulurken hata: '' @ str_exn e)
              \<in> set (snd (create_market_order (Some c) symbol side amount tp sl)))
     \<and> (truthy sl \<and> create_order c symbol (PStr ''STOP_MARKET'')
            (if side = PStr ''buy'' then PStr ''sell'' else PStr ''buy'') amount PNone
            (PDict [(''stopPrice'', sl), (''reduceOnly'', PBool True)]) = Inl e'
        \<longrightarrow> Line (''Stop loss emri olu'' @ u_s @ ''turulurken hata: '' @ str_exn e')
              \<in> set (snd (create_market_order (Some c) symbol side amount tp sl)))"
  using assms
  by (simp add: create_market_order_def take_profit_block_def stop_loss_block_def Let_def)

theorem create_market_order_primary_wins_witness:
  "fst (create_market_order (Some demo_client) (PStr ''BTC/USDT'') (PStr ''buy'') (PNum 1)
          (PNum 70000) (PNum 50000)) = Inr (sample_order, msg_order_ok)
   \<and> Line (''Take profit emri olu'' @ u_s @ ''turulurken hata: order rejected'')
       \<in> set (snd (create_market_order (Some demo_client) (PStr ''BTC/USDT'') (PStr ''buy'')
                      (PNum 1) (PNum 70000) (PNum 50000)))
   \<and> Line (''Stop loss emri olu'' @ u_s @ ''turulurken hata: order rejected'')
       \<in> set (snd (create_market_order (Some demo_client) (PStr ''BTC/USDT'') (PStr ''buy'')
                      (PNum 1) (PNum 70000) (PNum 50000)))"
proof -
  have p: "client_create_market_order demo_client (PStr ''BTC/USDT'') (PStr ''buy'') (PNum 1)
             = Inr sample_order"
    by (simp add: demo_client_def)
  from create_market_order_primary_wins
         [OF p, where tp = "PNum 70000" and sl = "PNum 50000"
            and e = "Exn OtherException ''order rejected''"
            and e' = "Exn OtherException ''order rejected''"]
  show ?thesis by (simp add: demo_client_def)
qed

text \<open>
  Claim C9.  The result of \<open>get_historical_data\<close> does not depend on the client
  argument: with the same environment (the same endpoint answers) and the same symbol,
  interval and limit, any two clients, \<open>None\<close> included, give the same result and the
  same printed lines.
\<close>

theorem get_historical_data_ignores_client:
  "get_historical_data E c1 symbol timeframe limit = get_historical_data E c2 symbol timeframe limit"
  by (simp add: get_historical_data_def)

theorem get_historical_data_ignores_client_witness:
  "get_historical_data offline_env None (PStr ''BTC/USDT'') (PStr ''1h'') (PNum 100)
     = get_historical_data offline_env (Some demo_client) (PStr ''BTC/USDT'') (PStr ''1h'')
         (PNum 100)"
  by (rule get_historical_data_ignores_client)

subsection \<open>Historical candles\<close>

lemma klines_frame_unparsable:
  "klines_frame unparsable_env (PList [kline_row])
     = Inl (Exn ValueError ''could not convert string to float'')"
  by (simp add: klines_frame_def unparsable_env_def kline_columns_def frame_col_def
        col_set_def set_index_def select_def)

text \<open>
  Claim C4.  For a string symbol, \<open>get_historical_data\<close> returns the empty table, not
  \<open>None\<close>, when the endpoint answers successfully with an empty array.  It returns
  \<open>None\<close> when the request raises, when the status check raises, when the body cannot
  be parsed, and when the reshaping of a non-empty answer raises at any step, the
  coercion to floating point included.
\<close>

theorem get_historical_data_empty_or_null:
  "(requests_get E klines_url
        (klines_params (PStr (filter (\<lambda>c. c \<noteq> CHR ''/'') s)) timeframe limit) = Inr resp
      \<and> raise_for_status resp = None \<and> json resp = Inr (PList [])
      \<longrightarrow> fst (get_historical_data E cl (PStr s) timeframe limit) = Inr (Some empty_frame))
   \<and> (requests_get E klines_url
        (klines_params (PStr (filter (\<lambda>c. c \<noteq> CHR ''/'') s)) timeframe limit) = Inl e
      \<longrightarrow> fst (get_historical_data E cl (PStr s) timeframe limit) = Inr None)
   \<and> (requests_get E klines_url
        (klines_params (PStr (filter (\<lambda>c. c \<noteq> CHR ''/'') s)) timeframe limit) = Inr resp
      \<and> raise_for_status resp = Some e
      \<longrightarrow> fst (get_historical_data E cl (PStr s) timeframe limit) = Inr None)
   \<and> (requests_get E klines_url
        (klines_params (PStr (filter (\<lambda>c. c \<noteq> CHR ''/'') s)) timeframe limit) = Inr resp
      \<and> raise_for_status resp = None \<and> json resp = Inl e
      \<longrightarrow> fst (get_historical_data E cl (PStr s) timeframe limit) = Inr None)
   \<and> (requests_get E klines_url
        (klines_params (PStr (filter (\<lambda>c. c \<noteq> CHR ''/'') s)) timeframe limit) = Inr resp
      \<and> raise_for_status resp = None \<and> json resp = Inr data \<and> truthy data
      \<and> klines_frame E data = Inl e
      \<longrightarrow> fst (get_historical_data E cl (PStr s) timeframe limit) = Inr None)"
  by (simp add: get_historical_data_def historical_body_def fetch_json_def)

theorem get_historical_data_empty_or_null_witness:
  "fst (get_historical_data quiet_env None (PStr ''BTC/USDT'') (PStr ''1h'') (PNum 100))
     = Inr (Some empty_frame)
   \<and> fst (get_historical_data offline_env None (PStr ''BTC/USDT'') (PStr ''1h'') (PNum 100))
     = Inr None
   \<and> fst (get_historical_data http_error_env None (PStr ''BTC/USDT'') (PStr ''1h'') (PNum 100))
     = Inr None
   \<and> fst (get_historical_data bad_json_env None (PStr ''BTC/USDT'') (PStr ''1h'') (PNum 100))
     = Inr None
   \<and> fst (get_historical_data unparsable_env None (PStr ''BTC/USDT'') (PStr ''1h'') (PNum 100))
     = Inr None"
  using klines_frame_unparsable
    get_historical_data_empty_or_null
      [where E = quiet_env and s = "''BTC/USDT''" and timeframe = "PStr ''1h''"
         and limit = "PNum 100" and cl = None and resp = empty_response]
    get_historical_data_empty_or_null
      [where E = offline_env and s = "''BTC/USDT''" and timeframe = "PStr ''1h''"
         and limit = "PNum 100" and cl = None
         and e = "Exn RequestException ''connection refused''"]
    get_historical_data_empty_or_null
      [where E = http_error_env and s = "''BTC/USDT''" and timeframe = "PStr ''1h''"
         and limit = "PNum 100" and cl = None
         and resp = "\<lparr>raise_for_status = Some (Exn RequestException ''400 Client Error''),
                        json = Inr (PDict [(''code'', PNum (- 1121))])\<rparr>"
         and e = "Exn RequestException ''400 Client Error''"]
    get_historical_data_empty_or_null
      [where E = bad_json_env and s = "''BTC/USDT''" and timeframe = "PStr ''1h''"
         and limit = "PNum 100" and cl = None
         and resp = "\<lparr>raise_for_status = None,
                        json = Inl (Exn RequestException ''Expecting value'')\<rparr>"
         and e = "Exn RequestException ''Expecting value''"]
    get_historical_data_empty_or_null
      [where E = unparsable_env and s = "''BTC/USDT''" and timeframe = "PStr ''1h''"
         and limit = "PNum 100" and cl = None
         and resp = "\<lparr>raise_for_status = None, json = Inr (PList [kline_row])\<rparr>"
         and data = "PList [kline_row]"
         and e = "Exn ValueError ''could not convert string to float''"]
  by (simp add: quiet_env_def offline_env_def http_error_env_def bad_json_env_def
        unparsable_env_def empty_response_def)

subsection \<open>The 24-hour ticker\<close>

lemma py_endswith_Inr: "py_endswith v t = Inr b \<Longrightarrow> \<exists>s. v = PStr s \<and> b = ends_with s t"
  by (cases v) auto

lemma usdt_filter_Inr: "usdt_filter ts = Inr us \<Longrightarrow> us = filter is_usdt_entry ts"
proof (induction ts arbitrary: us)
  case Nil
  then show ?case by simp
next
  case (Cons t ts)
  from Cons.prems obtain s where s: "py_getitem t ''symbol'' = Inr s"
    by (auto split: sum.splits)
  from Cons.prems s obtain b where b: "py_endswith s ''USDT'' = Inr b"
    by (auto split: sum.splits)
  from Cons.prems s b obtain r where r: "usdt_filter ts = Inr r"
    by (auto split: sum.splits)
  from Cons.prems s b r have us: "us = (if b then t # r else r)" by simp
  from py_endswith_Inr[OF b] obtain str where str: "s = PStr str" "b = ends_with str ''USDT''"
    by blast
  from s str have "is_usdt_entry t = b" by (simp add: is_usdt_entry_def)
  with us Cons.IH[OF r] show ?case by simp
qed

lemma usdt_entry_symbol:
  assumes "is_usdt_entry t"
  shows "\<exists>kvs s. t = PDict kvs \<and> map_of kvs ''symbol'' = Some (PStr s) \<and> ends_with s ''USDT''"
proof (cases t)
  case (PDict kvs)
  with assms show ?thesis
    by (auto simp: is_usdt_entry_def split: option.splits pyval.splits)
qed (use assms in \<open>simp_all add: is_usdt_entry_def\<close>)

lemma fix_symbol_entry:
  assumes "is_usdt_entry t"
  shows "fix_symbol (record_cell ''symbol'' t) = Inr (separated_symbol t)"
proof -
  from usdt_entry_symbol[OF assms] obtain kvs s where
    t: "t = PDict kvs" "map_of kvs ''symbol'' = Some (PStr s)" and e: "ends_with s ''USDT''"
    by blast
  from e have "drop (length s - 4) s = ''USDT''" by (simp add: ends_with_def eval_nat_numeral)
  with t e show ?thesis
    by (simp add: record_cell_def separated_symbol_def slash_symbol_def)
qed

lemma apply_fix_symbol:
  "\<forall>t\<in>set us. is_usdt_entry t \<Longrightarrow>
     apply_col fix_symbol (map (record_cell ''symbol'') us) = Inr (map separated_symbol us)"
  by (induction us) (simp_all add: fix_symbol_entry)

lemma separated_not_null: "is_usdt_entry t \<Longrightarrow> \<not> is_null (separated_symbol t)"
  using usdt_entry_symbol[of t] by (auto simp: separated_symbol_def)

lemma map_of_tabulate:
  "map_of (map (\<lambda>k. (k, f k)) ks) k = Some v \<Longrightarrow> v = f k"
  by (induction ks) (auto split: if_splits)

lemma frame_records_col:
  "map_of (cols (frame_of_records ts)) k = Some xs \<Longrightarrow> xs = map (record_cell k) ts"
  unfolding frame_of_records_def frame.simps
  by (rule map_of_tabulate [where f = "\<lambda>k. map (record_cell k) ts"])

lemma select_records:
  assumes "select (frame_of_records ts) [a, b, c, d] = Inr df"
  shows "cols df = [(a, map (record_cell a) ts), (b, map (record_cell b) ts),
                    (c, map (record_cell c) ts), (d, map (record_cell d) ts)]
         \<and> length (index df) = length ts"
proof -
  from assms obtain xa xb xc xd where
    m: "map_of (cols (frame_of_records ts)) a = Some xa"
       "map_of (cols (frame_of_records ts)) b = Some xb"
       "map_of (cols (frame_of_records ts)) c = Some xc"
       "map_of (cols (frame_of_records ts)) d = Some xd"
    by (auto simp: select_def split: option.splits sum.splits)
  from m assms have c: "cols df = [(a, xa), (b, xb), (c, xc), (d, xd)]"
    by (auto simp: select_def)
  from m assms have i: "index df = index (frame_of_records ts)"
    by (auto simp: select_def)
  from m have x: "xa = map (record_cell a) ts" "xb = map (record_cell b) ts"
    "xc = map (record_cell c) ts" "xd = map (record_cell d) ts"
    by (auto dest: frame_records_col)
  from i have "length (index df) = length ts" by (simp add: frame_of_records_def)
  with c x show ?thesis by simp
qed

lemma keep_rows4:
  "length cs = length us \<Longrightarrow> length ps = length us \<Longrightarrow> length vs = length us \<Longrightarrow>
   \<forall>t\<in>set us. \<not> is_null (g t) \<Longrightarrow>
   keep (map g us) (notna_mask (length us) [map g us, cs, ps, vs])
     = map (\<lambda>(t, c, p, v). g t)
         (filter (\<lambda>(t, c, p, v). \<not> is_null c \<and> \<not> is_null p \<and> \<not> is_null v)
            (zip us (zip cs (zip ps vs))))"
proof (induction us arbitrary: cs ps vs)
  case Nil
  then show ?case by (simp add: keep_def notna_mask_def)
next
  case (Cons t us)
  from Cons.prems obtain c cs' p ps' v vs' where
    eq: "cs = c # cs'" "ps = p # ps'" "vs = v # vs'"
    and len: "length cs' = length us" "length ps' = length us" "length vs' = length us"
    by (auto simp: length_Suc_conv)
  from Cons.prems have nn: "\<not> is_null (g t)" "\<forall>t\<in>set us. \<not> is_null (g t)" by simp_all
  from Cons.IH[OF len nn(2)] nn(1) eq show ?case
    by (simp add: keep_def notna_mask_def)
qed

lemma col_names_distinct:
  "col_symbol \<noteq> col_change" "col_symbol \<noteq> col_price" "col_symbol \<noteq> col_volume"
  "col_change \<noteq> col_price" "col_change \<noteq> col_volume" "col_price \<noteq> col_volume"
  "col_change \<noteq> col_symbol" "col_price \<noteq> col_symbol" "col_volume \<noteq> col_symbol"
  "col_price \<noteq> col_change" "col_volume \<noteq> col_change" "col_volume \<noteq> col_price"
  by (simp_all add: col_symbol_def col_change_def col_price_def col_volume_def)

lemma rename_ticker:
  assumes "cols df = [(''symbol'', S), (''priceChangePercent'', C), (''lastPrice'', P),
                      (''quoteVolume'', V)]"
  shows "cols (rename df [(''symbol'', col_symbol), (''priceChangePercent'', col_change),
                          (''lastPrice'', col_price), (''quoteVolume'', col_volume)])
           = [(col_symbol, S), (col_change, C), (col_price, P), (col_volume, V)]
         \<and> index (rename df [(''symbol'', col_symbol), (''priceChangePercent'', col_change),
                          (''lastPrice'', col_price), (''quoteVolume'', col_volume)]) = index df"
  using assms by (simp add: rename_def)

lemma to_numeric_change:
  assumes "cols df = [(col_symbol, S), (col_change, C), (col_price, P), (col_volume, V)]"
    and "to_numeric_col E df col_change = Inr df'"
  shows "cols df' = [(col_symbol, S), (col_change, pd_to_numeric E C), (col_price, P),
                     (col_volume, V)]
         \<and> index df' = index df \<and> length (pd_to_numeric E C) = length (index df)"
  using assms col_names_distinct
  by (auto simp: to_numeric_col_def frame_col_def col_set_def split: if_splits)

lemma to_numeric_price:
  assumes "cols df = [(col_symbol, S), (col_change, C), (col_price, P), (col_volume, V)]"
    and "to_numeric_col E df col_price = Inr df'"
  shows "cols df' = [(col_symbol, S), (col_change, C), (col_price, pd_to_numeric E P),
                     (col_volume, V)]
         \<and> index df' = index df \<and> length (pd_to_numeric E P) = length (index df)"
  using assms col_names_distinct
  by (auto simp: to_numeric_col_def frame_col_def col_set_def split: if_splits)

lemma to_numeric_volume:
  assumes "cols df = [(col_symbol, S), (col_change, C), (col_price, P), (col_volume, V)]"
    and "to_numeric_col E df col_volume = Inr df'"
  shows "cols df' = [(col_symbol, S), (col_change, C), (col_price, P),
                     (col_volume, pd_to_numeric E V)]
         \<and> index df' = index df \<and> length (pd_to_numeric E V) = length (index df)"
  using assms col_names_distinct
  by (auto simp: to_numeric_col_def frame_col_def col_set_def split: if_splits)

lemma set_symbol_col:
  assumes "cols df = [(col_symbol, S), (col_change, C), (col_price, P), (col_volume, V)]"
    and "col_set df col_symbol S' = Inr df'"
  shows "cols df' = [(col_symbol, S'), (col_change, C), (col_price, P), (col_volume, V)]
         \<and> index df' = index df \<and> length S' = length (index df)"
  using assms col_names_distinct
  by (auto simp: col_set_def split: if_splits)

lemma dropna_symbol_col:
  assumes "cols df = [(col_symbol, S), (col_change, C), (col_price, P), (col_volume, V)]"
  shows "frame_col (dropna df) col_symbol
           = Inr (keep S (notna_mask (length (index df)) [S, C, P, V]))"
  using assms by (simp add: dropna_def frame_col_def Let_def)

lemma ticker_frame_symbols:
  assumes tf: "ticker_frame E us = Inr df" and us: "\<forall>t\<in>set us. is_usdt_entry t"
  shows "frame_col df col_symbol = Inr (surviving_symbols E us)"
proof -
  let ?names = "[''symbol'', ''priceChangePercent'', ''lastPrice'', ''quoteVolume'']"
  let ?ren = "[(''symbol'', col_symbol), (''priceChangePercent'', col_change),
               (''lastPrice'', col_price), (''quoteVolume'', col_volume)]"
  let ?S = "map (record_cell ''symbol'') us"
  let ?C = "coerced E ''priceChangePercent'' us"
  let ?P = "coerced E ''lastPrice'' us"
  let ?V = "coerced E ''quoteVolume'' us"
  from tf obtain df0 where sel: "select (frame_of_records us) ?names = Inr df0"
    by (auto simp: ticker_frame_def split: sum.splits)
  define df1 where "df1 = rename df0 ?ren"
  from tf sel obtain df2 where s2: "to_numeric_col E df1 col_change = Inr df2"
    by (auto simp: ticker_frame_def df1_def Let_def split: sum.splits)
  from tf sel s2 obtain df3 where s3: "to_numeric_col E df2 col_price = Inr df3"
    by (auto simp: ticker_frame_def df1_def Let_def split: sum.splits)
  from tf sel s2 s3 obtain df4 where s4: "to_numeric_col E df3 col_volume = Inr df4"
    by (auto simp: ticker_frame_def df1_def Let_def split: sum.splits)
  from tf sel s2 s3 s4 obtain syms where s5: "frame_col df4 col_symbol = Inr syms"
    by (auto simp: ticker_frame_def df1_def Let_def split: sum.splits)
  from tf sel s2 s3 s4 s5 obtain syms' where s6: "apply_col fix_symbol syms = Inr syms'"
    by (auto simp: ticker_frame_def df1_def Let_def split: sum.splits)
  from tf sel s2 s3 s4 s5 s6 obtain df5 where s7: "col_set df4 col_symbol syms' = Inr df5"
    by (auto simp: ticker_frame_def df1_def Let_def split: sum.splits)
  from tf sel s2 s3 s4 s5 s6 s7 have df: "df = dropna df5"
    by (auto simp: ticker_frame_def df1_def Let_def split: sum.splits)
  from select_records[OF sel] have
    c0: "cols df0 = [(''symbol'', ?S), (''priceChangePercent'', map (record_cell ''priceChangePercent'') us),
                     (''lastPrice'', map (record_cell ''lastPrice'') us),
                     (''quoteVolume'', map (record_cell ''quoteVolume'') us)]"
    and n0: "length (index df0) = length us"
    by simp_all
  from rename_ticker[OF c0] have
    c1: "cols df1 = [(col_symbol, ?S), (col_change, map (record_cell ''priceChangePercent'') us),
                     (col_price, map (record_cell ''lastPrice'') us),
                     (col_volume, map (record_cell ''quoteVolume'') us)]"
    and n1: "index df1 = index df0"
    by (simp_all add: df1_def)
  from to_numeric_change[OF c1 s2] have
    c2: "cols df2 = [(col_symbol, ?S), (col_change, ?C),
                     (col_price, map (record_cell ''lastPrice'') us),
                     (col_volume, map (record_cell ''quoteVolume'') us)]"
    and n2: "index df2 = index df1" and lC: "length ?C = length (index df1)"
    by (simp_all add: coerced_def)
  from to_numeric_price[OF c2 s3] have
    c3: "cols df3 = [(col_symbol, ?S), (col_change, ?C), (col_price, ?P),
                     (col_volume, map (record_cell ''quoteVolume'') us)]"
    and n3: "index df3 = index df2" and lP: "length ?P = length (index df2)"
    by (simp_all add: coerced_def)
  from to_numeric_volume[OF c3 s4] have
    c4: "cols df4 = [(col_symbol, ?S), (col_change, ?C), (col_price, ?P), (col_volume, ?V)]"
    and n4: "index df4 = index df3" and lV: "length ?V = length (index df3)"
    by (simp_all add: coerced_def)
  from s5 c4 have syms: "syms = ?S" by (simp add: frame_col_def)
  with s6 apply_fix_symbol[OF us] have syms': "syms' = map separated_symbol us" by simp
  from set_symbol_col[OF c4 s7] have
    c5: "cols df5 = [(col_symbol, map separated_symbol us), (col_change, ?C), (col_price, ?P),
                     (col_volume, ?V)]"
    and n5: "index df5 = index df4"
    by (simp_all add: syms')
  have len: "length ?C = length us" "length ?P = length us" "length ?V = length us"
    "length (index df5) = length us"
    using n0 n1 n2 n3 n4 n5 lC lP lV by simp_all
  have nn: "\<forall>t\<in>set us. \<not> is_null (separated_symbol t)"
    using us by (simp add: separated_not_null)
  from dropna_symbol_col[OF c5] df len(4)
  have "frame_col df col_symbol
          = Inr (keep (map separated_symbol us)
                   (notna_mask (length us) [map separated_symbol us, ?C, ?P, ?V]))"
    by simp
  also have "keep (map separated_symbol us)
               (notna_mask (length us) [map separated_symbol us, ?C, ?P, ?V])
             = surviving_symbols E us"
    unfolding surviving_symbols_def by (rule keep_rows4[OF len(1) len(2) len(3) nn])
  finally show ?thesis .
qed

lemma ticker_env_fetch:
  "fetch_json ticker_env ticker_url PNone = Inr (PList [btc_ticker, eth_ticker, busd_ticker])"
  by (simp add: fetch_json_def ticker_env_def)

lemma ticker_env_filter:
  "usdt_filter [btc_ticker, eth_ticker, busd_ticker] = Inr [btc_ticker, eth_ticker]"
  by (simp add: btc_ticker_def eth_ticker_def busd_ticker_def ends_with_def)

lemma ticker_env_records:
  "frame_of_records [btc_ticker, eth_ticker]
     = \<lparr>index = [Val (PNum 0), Val (PNum 1)],
        cols = [(''symbol'', [Val (PStr ''BTCUSDT''), Val (PStr ''ETHUSDT'')]),
                (''priceChangePercent'', [Val PNone, Val (PNum 2.5)]),
                (''lastPrice'', [Val (PNum 50000), Val (PNum 3000)]),
                (''quoteVolume'', [Val (PNum 1000), Val (PNum 500)])]\<rparr>"
  by (simp add: frame_of_records_def btc_ticker_def eth_ticker_def record_cell_def)

lemma ticker_env_frame: "ticker_frame ticker_env [btc_ticker, eth_ticker] = Inr eth_frame"
  unfolding ticker_frame_def ticker_env_records
  by (simp add: select_def rename_def to_numeric_col_def frame_col_def col_set_def
        col_names_distinct ticker_env_def offline_env_def slash_symbol_def ends_with_def
        dropna_def notna_mask_def keep_def eth_frame_def Let_def)

lemma ticker_env_result: "fst (get_24h_ticker ticker_env) = Inr (Some eth_frame)"
  by (simp add: get_24h_ticker_def ticker_body_def ticker_env_fetch ticker_env_filter
        ticker_env_frame del: usdt_filter.simps)

lemma ticker_env_entries:
  "filter is_usdt_entry [btc_ticker, eth_ticker, busd_ticker] = [btc_ticker, eth_ticker]"
  by (simp add: is_usdt_entry_def btc_ticker_def eth_ticker_def busd_ticker_def ends_with_def)

text \<open>
  Claim C5, as amended.  When the ticker endpoint answers with a list and
  \<open>get_24h_ticker\<close> returns a table, the table is empty if no entry's symbol ends in
  \<open>USDT\<close>; otherwise its symbol column holds, in upstream order, the separated symbols
  of exactly those entries whose symbol ends in \<open>USDT\<close> and whose three numeric fields
  are all present after numeric coercion.  Entries whose symbol does not end in \<open>USDT\<close>
  never appear.
\<close>

theorem get_24h_ticker_rows:
  assumes "fetch_json E ticker_url PNone = Inr (PList ts)"
    and "fst (get_24h_ticker E) = Inr (Some df)"
  shows "(filter is_usdt_entry ts = [] \<longrightarrow> df = empty_frame)
       \<and> (filter is_usdt_entry ts \<noteq> []
            \<longrightarrow> frame_col df col_symbol = Inr (surviving_symbols E (filter is_usdt_entry ts)))"
proof -
  from assms have body: "ticker_body E = Inr df"
    by (auto simp: get_24h_ticker_def split: sum.splits if_splits)
  with assms(1) obtain us where uf: "usdt_filter ts = Inr us"
    by (auto simp: ticker_body_def split: sum.splits)
  from usdt_filter_Inr[OF uf] have us: "us = filter is_usdt_entry ts" .
  show ?thesis
  proof (cases "us = []")
    case True
    with body assms(1) uf us show ?thesis by (simp add: ticker_body_def)
  next
    case False
    with body assms(1) uf have "ticker_frame E us = Inr df" by (simp add: ticker_body_def)
    moreover from us have "\<forall>t\<in>set us. is_usdt_entry t" by simp
    ultimately have "frame_col df col_symbol = Inr (surviving_symbols E us)"
      by (rule ticker_frame_symbols)
    with False us show ?thesis by simp
  qed
qed

theorem get_24h_ticker_rows_witness:
  "filter is_usdt_entry [btc_ticker, eth_ticker, busd_ticker] \<noteq> []
   \<and> frame_col eth_frame col_symbol
       = Inr (surviving_symbols ticker_env
                (filter is_usdt_entry [btc_ticker, eth_ticker, busd_ticker]))
   \<and> surviving_symbols ticker_env (filter is_usdt_entry [btc_ticker, eth_ticker, busd_ticker])
       = [Val (PStr ''ETH/USDT'')]"
proof -
  have s: "surviving_symbols ticker_env [btc_ticker, eth_ticker] = [Val (PStr ''ETH/USDT'')]"
    by (simp add: surviving_symbols_def coerced_def ticker_env_def offline_env_def
          record_cell_def separated_symbol_def btc_ticker_def eth_ticker_def)
  have n: "[btc_ticker, eth_ticker] \<noteq> []" by simp
  from get_24h_ticker_rows [OF ticker_env_fetch ticker_env_result] s n
  show ?thesis by (simp only: ticker_env_entries simp_thms)
qed

text \<open>
  Claim C5 as stated fails: an entry whose symbol ends in \<open>USDT\<close> but whose price
  change is \<open>null\<close> is dropped by \<open>dropna\<close>.  Of the upstream entries \<open>BTCUSDT\<close>
  (null price change), \<open>ETHUSDT\<close> and \<open>BTCBUSD\<close>, only \<open>ETH/USDT\<close> is in the
  returned table, although \<open>BTCUSDT\<close> ends in \<open>USDT\<close>.
\<close>

theorem get_24h_ticker_drops_uncoerced_row:
  "fetch_json ticker_env ticker_url PNone = Inr (PList [btc_ticker, eth_ticker, busd_ticker])
   \<and> fst (get_24h_ticker ticker_env) = Inr (Some eth_frame)
   \<and> frame_col eth_frame col_symbol = Inr [Val (PStr ''ETH/USDT'')]
   \<and> map separated_symbol (filter is_usdt_entry [btc_ticker, eth_ticker, busd_ticker])
       = [Val (PStr ''BTC/USDT''), Val (PStr ''ETH/USDT'')]"
proof -
  have a: "frame_col eth_frame col_symbol = Inr [Val (PStr ''ETH/USDT'')]"
    by (simp add: eth_frame_def frame_col_def)
  have b: "map separated_symbol [btc_ticker, eth_ticker]
             = [Val (PStr ''BTC/USDT''), Val (PStr ''ETH/USDT'')]"
    by (simp add: separated_symbol_def btc_ticker_def eth_ticker_def)
  show ?thesis
    by (simp only: ticker_env_fetch ticker_env_result ticker_env_entries a b simp_thms)
qed

subsection \<open>No exception leaves the module\<close>

text \<open>
  Claim C2.  None of the seven public functions propagates an exception: each returns a
  value on every input.  When the call a function is built around raises (the client
  constructor, the balance fetch, the klines or ticker request, the primary order call,
  the position fetch), and more generally when anything inside the \<open>try\<close> block of the
  candle, ticker or position function raises, the value returned is the function's
  failure value: \<open>None\<close>, \<open>False\<close> with a message, or \<open>None\<close> with a message.
\<close>

theorem no_exception_escapes:
  "(\<exists>r. fst (get_binance_client E api_key secret_key) = Inr r)
   \<and> (\<exists>r. fst (test_api_connection E api_key secret_key) = Inr r)
   \<and> (\<exists>r. fst (get_futures_balance cl) = Inr r)
   \<and> (\<exists>r. fst (get_historical_data E cl symbol timeframe limit) = Inr r)
   \<and> (\<exists>r. fst (create_market_order cl symbol side amount tp sl) = Inr r)
   \<and> (\<exists>r. fst (get_24h_ticker E) = Inr r)
   \<and> (\<exists>r. fst (get_position cl symbol) = Inr r)
   \<and> (truthy api_key \<and> truthy secret_key
        \<and> ccxt_binance E (client_config api_key secret_key) = Inl e
      \<longrightarrow> fst (get_binance_client E api_key secret_key) = Inr None
          \<and> fst (test_api_connection E api_key secret_key) = Inr (False, msg_no_client))
   \<and> (truthy api_key \<and> truthy secret_key
        \<and> ccxt_binance E (client_config api_key secret_key) = Inr c \<and> fetch_balance c = Inl e
      \<longrightarrow> (\<exists>m. fst (test_api_connection E api_key secret_key) = Inr (False, m)))
   \<and> (fetch_balance c = Inl e \<longrightarrow> fst (get_futures_balance (Some c)) = Inr PNone)
   \<and> (historical_body E symbol timeframe limit = Inl e
      \<longrightarrow> fst (get_historical_data E cl symbol timeframe limit) = Inr None)
   \<and> (symbol = PStr s
        \<and> fetch_json E klines_url
             (klines_params (PStr (filter (\<lambda>c. c \<noteq> CHR ''/'') s)) timeframe limit) = Inl e
      \<longrightarrow> fst (get_historical_data E cl symbol timeframe limit) = Inr None)
   \<and> (client_create_market_order c symbol side amount = Inl e
      \<longrightarrow> fst (create_market_order (Some c) symbol side amount tp sl)
            = Inr (PNone, msg_order_failed e))
   \<and> (ticker_body E = Inl e \<longrightarrow> fst (get_24h_ticker E) = Inr None)
   \<and> (fetch_json E ticker_url PNone = Inl e \<longrightarrow> fst (get_24h_ticker E) = Inr None)
   \<and> (position_body c symbol = Inl e \<longrightarrow> fst (get_position (Some c) symbol) = Inr PNone)
   \<and> (fetch_positions c (PList [symbol]) = Inl e
      \<longrightarrow> fst (get_position (Some c) symbol) = Inr PNone)"
proof (intro conjI)
  show "\<exists>r. fst (get_binance_client E api_key secret_key) = Inr r"
    by (simp add: get_binance_client_def split: sum.splits)
  show "\<exists>r. fst (test_api_connection E api_key secret_key) = Inr r"
    by (auto simp: test_api_connection_def get_binance_client_def split: sum.splits)
  show "\<exists>r. fst (get_futures_balance cl) = Inr r"
    by (simp add: get_futures_balance_def split: option.splits sum.splits)
  show "\<exists>r. fst (get_historical_data E cl symbol timeframe limit) = Inr r"
    by (simp add: get_historical_data_def split: sum.splits)
  show "\<exists>r. fst (create_market_order cl symbol side amount tp sl) = Inr r"
    by (simp add: create_market_order_def Let_def split: option.splits sum.splits)
  show "\<exists>r. fst (get_24h_ticker E) = Inr r"
    by (simp add: get_24h_ticker_def split: sum.splits)
  show "\<exists>r. fst (get_position cl symbol) = Inr r"
    by (simp add: get_position_def split: option.splits sum.splits)
qed (simp_all add: get_binance_client_def test_api_connection_def get_futures_balance_def
       get_historical_data_def historical_body_def create_market_order_def get_24h_ticker_def
       ticker_body_def get_position_def position_body_def)

theorem no_exception_escapes_witness:
  "fst (get_binance_client offline_env (PStr ''key'') (PStr ''secret'')) = Inr None
   \<and> fst (test_api_connection offline_env (PStr ''key'') (PStr ''secret''))
       = Inr (False, msg_no_client)
   \<and> fst (get_futures_balance (Some failing_client)) = Inr PNone
   \<and> fst (get_historical_data offline_env (Some failing_client) (PStr ''BTC/USDT'')
            (PStr ''1h'') (PNum 100)) = Inr None
   \<and> fst (create_market_order (Some failing_client) (PStr ''BTC/USDT'') (PStr ''buy'')
            (PNum 1) PNone PNone)
       = Inr (PNone, msg_order_failed (Exn OtherException ''insufficient margin''))
   \<and> fst (get_24h_ticker offline_env) = Inr None
   \<and> fst (get_position (Some failing_client) (PStr ''BTC/USDT'')) = Inr PNone"
proof -
  have h: "historical_body offline_env (PStr ''BTC/USDT'') (PStr ''1h'') (PNum 100)
             = Inl (Exn RequestException ''connection refused'')"
    by (simp add: historical_body_def fetch_json_def offline_env_def)
  have t: "fetch_json offline_env ticker_url PNone
             = Inl (Exn RequestException ''connection refused'')"
    by (simp add: fetch_json_def offline_env_def)
  show ?thesis
    using h t
      no_exception_escapes
        [where E = offline_env and api_key = "PStr ''key''" and secret_key = "PStr ''secret''"
           and e = "Exn OtherException ''no such exchange''"]
      no_exception_escapes
        [where c = failing_client and e = "Exn AuthenticationError ''invalid api key''"]
      no_exception_escapes
        [where E = offline_env and cl = "Some failing_client" and symbol = "PStr ''BTC/USDT''"
           and timeframe = "PStr ''1h''" and limit = "PNum 100"
           and e = "Exn RequestException ''connection refused''"]
      no_exception_escapes
        [where c = failing_client and symbol = "PStr ''BTC/USDT''" and side = "PStr ''buy''"
           and amount = "PNum 1" and tp = PNone and sl = PNone
           and e = "Exn OtherException ''insufficient margin''"]
      no_exception_escapes
        [where c = failing_client and symbol = "PStr ''BTC/USDT''"
           and e = "Exn OtherException ''timed out''"]
    by (simp add: offline_env_def failing_client_def)
qed

end
